theory Spec2Isabelle
  imports Main
begin

section \<open>JavaScript values\<close>

text \<open>
  The values the client receives from the backend are parsed JSON; the React state cells
  \<open>user\<close> and \<open>token\<close> hold such values as they come. A number is held as its canonical
  decimal rendering (what \<open>String(n)\<close> gives, e.g. \<open>''0''\<close>, \<open>''42''\<close>, \<open>''NaN''\<close>), which is all
  this program ever does with a number of the backend: test its truthiness, compare it with
  \<open>===\<close>, and print it in a template literal. An object is the list of its properties.
\<close>

datatype jsval =
    JUndefined
  | JNull
  | JBool bool
  | JNum string
  | JStr string
  | JArr "jsval list"
  | JObj "(string \<times> jsval) list"

text \<open>\<open>!!v\<close>: the falsy values are undefined, null, false, 0, NaN and the empty string.\<close>

fun truthy :: "jsval \<Rightarrow> bool" where
  "truthy JUndefined = False"
| "truthy JNull = False"
| "truthy (JBool b) = b"
| "truthy (JNum r) = (r \<noteq> ''0'' \<and> r \<noteq> ''NaN'')"
| "truthy (JStr s) = (s \<noteq> [])"
| "truthy (JArr xs) = True"
| "truthy (JObj kvs) = True"

text \<open>\<open>a || b\<close>\<close>

definition or_else :: "jsval \<Rightarrow> jsval \<Rightarrow> jsval" where
  "or_else a b = (if truthy a then a else b)"

text \<open>\<open>v != null\<close>: the value is neither null nor undefined.\<close>

definition non_null :: "jsval \<Rightarrow> bool" where
  "non_null v = (v \<noteq> JNull \<and> v \<noteq> JUndefined)"

fun join :: "string list \<Rightarrow> string" where
  "join [] = []"
| "join [x] = x"
| "join (x # y # ys) = x @ '','' @ join (y # ys)"

text \<open>
  The string a template literal \<open>`${v}`\<close> puts in place of \<open>v\<close>. An array prints its elements
  separated by commas, null and undefined elements as nothing; a plain object prints as
  \<open>[object Object]\<close>.
\<close>

fun to_string :: "jsval \<Rightarrow> string" where
  "to_string JUndefined = ''undefined''"
| "to_string JNull = ''null''"
| "to_string (JBool b) = (if b then ''true'' else ''false'')"
| "to_string (JNum r) = r"
| "to_string (JStr s) = s"
| "to_string (JArr xs) =
     join (map (\<lambda>x. case x of JUndefined \<Rightarrow> [] | JNull \<Rightarrow> [] | _ \<Rightarrow> to_string x) xs)"
| "to_string (JObj kvs) = ''[object Object]''"

text \<open>
  Whether the runtime can turn \<open>v\<close> into a primitive at all, as \<open>encodeURIComponent(v)\<close>,
  \<open>'' + v\<close>, \<open>Math.round(v)\<close> and \<open>new Date(v)\<close> do first. A parsed JSON object has no
  function among its properties: when it has a property \<open>toString\<close> of its own, that
  hides the inherited method, nothing is left to call, and the conversion throws a
  TypeError. An array is converted by joining the string forms of its elements.
  \<open>to_string\<close> is the string form of a value that has one.
\<close>

fun coercible :: "jsval \<Rightarrow> bool" where
  "coercible (JObj kvs) = (map_of kvs ''toString'' = None)"
| "coercible (JArr xs) = list_all coercible xs"
| "coercible v = True"


section \<open>The HTTP client\<close>

record response =
  status :: nat
  data :: jsval

text \<open>
  What a \<open>try\<close> block of this program can catch: the rejection of an axios call
  (\<open>error.response\<close> is the response of the backend, absent when the request never got
  one), a TypeError of the runtime (a property read on null or undefined, a call of
  something that is no function), and the program's own \<open>new Error(message)\<close>.
\<close>

datatype exn =
    AxiosError "response option"
  | TypeError
  | JsError string

text \<open>
  A request as the backend sees it. \<open>url\<close> is the path below \<open>API_BASE_URL\<close>;
  \<open>auth_header\<close> is the Authorization header the request carries.
\<close>

record request =
  meth :: string
  url :: string
  auth_header :: "string option"
  body :: jsval

text \<open>
  The backend is not part of the client: it is any function from requests to replies.
  axios resolves the promise on a 2xx status and rejects it otherwise, with the response
  when there is one.
\<close>

datatype reply = Resolved response | Rejected "response option"

type_synonym backend = "request \<Rightarrow> reply"

definition axios_request :: "backend \<Rightarrow> request \<Rightarrow> exn + response" where
  "axios_request backend req =
     (case backend req of Resolved r \<Rightarrow> Inr r | Rejected ro \<Rightarrow> Inl (AxiosError ro))"

text \<open>
  \<open>v.k\<close> for the property names this program reads (\<open>access_token\<close>, \<open>user\<close>, \<open>error\<close>,
  \<open>proposals\<close>, \<open>status\<close>, ...), none of which a string, number, boolean or array has: the
  read throws on null and undefined, finds the property of an object, and is undefined
  otherwise.
\<close>

fun get_prop :: "jsval \<Rightarrow> string \<Rightarrow> exn + jsval" where
  "get_prop JUndefined k = Inl TypeError"
| "get_prop JNull k = Inl TypeError"
| "get_prop (JObj kvs) k = Inr (case map_of kvs k of None \<Rightarrow> JUndefined | Some v \<Rightarrow> v)"
| "get_prop v k = Inr JUndefined"

text \<open>\<open>error.response?.status\<close>\<close>

fun error_status :: "exn \<Rightarrow> nat option" where
  "error_status (AxiosError (Some r)) = Some (status r)"
| "error_status e = None"

text \<open>\<open>error.response?.data\<close>\<close>

fun error_data :: "exn \<Rightarrow> jsval" where
  "error_data (AxiosError (Some r)) = data r"
| "error_data e = JUndefined"

text \<open>\<open>error.response?.data?.error\<close>\<close>

definition error_message :: "exn \<Rightarrow> jsval" where
  "error_message e =
     (case get_prop (error_data e) ''error'' of Inl x \<Rightarrow> JUndefined | Inr v \<Rightarrow> v)"

section \<open>The Auth Context\<close>

text \<open>
  A cookie of the browser, as js-cookie writes it: the value as a string (\<open>Cookies.set\<close>
  turns the value it is given into one, \<open>Cookies.get\<close> gives the string back, and
  undefined where there is no such cookie), and the \<open>expires\<close> attribute in days. The
  passing of time, and with it the end of a cookie, is outside the model.
\<close>

record cookie =
  cookie_value :: string
  expires :: nat

text \<open>
  The state the AuthProvider owns and writes: its three React state cells, the cookie jar
  of the browser, and \<open>axios.defaults.headers.common\<close>.
\<close>

record session =
  user :: jsval
  token :: jsval
  loading :: bool
  cookies :: "string \<rightharpoonup> cookie"
  headers :: "string \<rightharpoonup> string"

text \<open>The state at the first render, over the cookies the browser holds at that time.\<close>

definition initial :: "(string \<rightharpoonup> cookie) \<Rightarrow> session" where
  "initial jar = \<lparr>user = JNull, token = JNull, loading = True, cookies = jar, headers = Map.empty\<rparr>"

definition Cookies_get :: "string \<Rightarrow> session \<Rightarrow> jsval" where
  "Cookies_get name s = (case cookies s name of None \<Rightarrow> JUndefined | Some c \<Rightarrow> JStr (cookie_value c))"

definition Cookies_set :: "string \<Rightarrow> jsval \<Rightarrow> nat \<Rightarrow> session \<Rightarrow> session" where
  "Cookies_set name v days s =
     s\<lparr>cookies := (cookies s)(name \<mapsto> \<lparr>cookie_value = to_string v, expires = days\<rparr>)\<rparr>"

definition Cookies_remove :: "string \<Rightarrow> session \<Rightarrow> session" where
  "Cookies_remove name s = s\<lparr>cookies := (cookies s)(name := None)\<rparr>"

text \<open>The effect run on mount (cold-start hydration).\<close>

definition hydrate :: "session \<Rightarrow> session" where
  "hydrate s =
     (let savedToken = Cookies_get ''token'' s;
          s1 = (if truthy savedToken
                then s\<lparr>token := savedToken,
                       headers := (headers s)(''Authorization'' \<mapsto> ''Bearer '' @ to_string savedToken)\<rparr>
                else s)
      in s1\<lparr>loading := False\<rparr>)"

datatype auth_result = Success jsval | Failure jsval

definition login_request :: "jsval \<Rightarrow> jsval \<Rightarrow> session \<Rightarrow> request" where
  "login_request email password s =
     \<lparr>meth = ''POST'', url = ''/login'', auth_header = headers s ''Authorization'',
      body = JObj [(''email'', email), (''password'', password)]\<rparr>"

definition register_request :: "jsval \<Rightarrow> jsval \<Rightarrow> jsval \<Rightarrow> session \<Rightarrow> request" where
  "register_request name email password s =
     \<lparr>meth = ''POST'', url = ''/register'', auth_header = headers s ''Authorization'',
      body = JObj [(''name'', name), (''email'', email), (''password'', password)]\<rparr>"

text \<open>
  The statements of the \<open>try\<close> block that login and register share after the request:
  the destructuring of \<open>response.data\<close>, the cookie, the default header, the two state
  cells. \<open>Cookies.set\<close> (js-cookie 3) encodes the token as a string before it writes the
  cookie, and throws where the token has no string form. The block yields the exception
  it stops at or its return value, with the state as it is at that point.
\<close>

definition store_token :: "response \<Rightarrow> session \<Rightarrow> (exn + auth_result) \<times> session" where
  "store_token r s =
     (case get_prop (data r) ''access_token'' of
        Inl e \<Rightarrow> (Inl e, s)
      | Inr access_token \<Rightarrow>
          (case get_prop (data r) ''user'' of
             Inl e \<Rightarrow> (Inl e, s)
           | Inr userData \<Rightarrow>
               if \<not> coercible access_token then (Inl TypeError, s)
               else
                 (let s1 = Cookies_set ''token'' access_token 1 s;
                      s2 = s1\<lparr>headers := (headers s1)(''Authorization'' \<mapsto> ''Bearer '' @ to_string access_token)\<rparr>;
                      s3 = s2\<lparr>token := access_token\<rparr>;
                      s4 = s3\<lparr>user := userData\<rparr>
                  in (Inr (Success userData), s4))))"

definition login_try :: "backend \<Rightarrow> jsval \<Rightarrow> jsval \<Rightarrow> session \<Rightarrow> (exn + auth_result) \<times> session" where
  "login_try backend email password s =
     (case axios_request backend (login_request email password s) of
        Inl e \<Rightarrow> (Inl e, s)
      | Inr r \<Rightarrow> store_token r s)"

text \<open>
  login: the \<open>try\<close> block and its \<open>catch\<close>. The result is what the caller gets: \<open>Inl\<close> an
  exception thrown to the caller, \<open>Inr\<close> the object returned.
\<close>

definition login :: "backend \<Rightarrow> jsval \<Rightarrow> jsval \<Rightarrow> session \<Rightarrow> (exn + auth_result) \<times> session" where
  "login backend email password s =
     (case login_try backend email password s of
        (Inl e, s') \<Rightarrow> (Inr (Failure (or_else (error_message e) (JStr ''Login failed''))), s')
      | (Inr res, s') \<Rightarrow> (Inr res, s'))"

definition register_try :: "backend \<Rightarrow> jsval \<Rightarrow> jsval \<Rightarrow> jsval \<Rightarrow> session \<Rightarrow> (exn + auth_result) \<times> session" where
  "register_try backend name email password s =
     (case axios_request backend (register_request name email password s) of
        Inl e \<Rightarrow> (Inl e, s)
      | Inr r \<Rightarrow> store_token r s)"

definition register :: "backend \<Rightarrow> jsval \<Rightarrow> jsval \<Rightarrow> jsval \<Rightarrow> session \<Rightarrow> (exn + auth_result) \<times> session" where
  "register backend name email password s =
     (case register_try backend name email password s of
        (Inl e, s') \<Rightarrow> (Inr (Failure (or_else (error_message e) (JStr ''Registration failed''))), s')
      | (Inr res, s') \<Rightarrow> (Inr res, s'))"

definition logout :: "session \<Rightarrow> session" where
  "logout s =
     (let s1 = Cookies_remove ''token'' s;
          s2 = s1\<lparr>headers := (headers s1)(''Authorization'' := None)\<rparr>;
          s3 = s2\<lparr>token := JNull\<rparr>
      in s3\<lparr>user := JNull\<rparr>)"

definition isAuthenticated :: "session \<Rightarrow> bool" where
  "isAuthenticated s = truthy (token s)"

text \<open>
  What the AuthProvider does after mount: each login and register meets some backend.
\<close>

datatype action =
    DoLogin backend jsval jsval
  | DoRegister backend jsval jsval jsval
  | DoLogout

fun step :: "session \<Rightarrow> action \<Rightarrow> session" where
  "step s (DoLogin backend email password) = snd (login backend email password s)"
| "step s (DoRegister backend name email password) = snd (register backend name email password s)"
| "step s DoLogout = logout s"

text \<open>The session after mount over the cookie jar \<open>jar\<close> and then the actions \<open>acts\<close>.\<close>

definition session_after :: "(string \<rightharpoonup> cookie) \<Rightarrow> action list \<Rightarrow> session" where
  "session_after jar acts = foldl step (hydrate (initial jar)) acts"

subsection \<open>useAuth\<close>

text \<open>
  The \<open>value\<close> object the AuthProvider hands to its context; \<open>login\<close>, \<open>register\<close> and
  \<open>logout\<close> are the functions above.
\<close>

record auth_value =
  value_user :: jsval
  value_token :: jsval
  value_loading :: bool
  value_isAuthenticated :: bool

definition provider_value :: "session \<Rightarrow> auth_value" where
  "provider_value s =
     \<lparr>value_user = user s, value_token = token s, value_loading = loading s,
      value_isAuthenticated = isAuthenticated s\<rparr>"

text \<open>
  The components above the caller in the tree, the nearest first. \<open>useContext(AuthContext)\<close>
  is the value of the nearest AuthProvider, and the default of \<open>createContext()\<close>, which
  is undefined (\<open>None\<close>), when there is none.
\<close>

datatype component = AuthProvider session | OtherComponent string

fun useContext :: "component list \<Rightarrow> auth_value option" where
  "useContext [] = None"
| "useContext (AuthProvider s # outer) = Some (provider_value s)"
| "useContext (OtherComponent name # outer) = useContext outer"

definition useAuth :: "component list \<Rightarrow> exn + auth_value" where
  "useAuth outer =
     (case useContext outer of
        None \<Rightarrow> Inl (JsError ''useAuth must be used within an AuthProvider'')
      | Some context \<Rightarrow> Inr context)"

fun is_AuthProvider :: "component \<Rightarrow> bool" where
  "is_AuthProvider (AuthProvider s) = True"
| "is_AuthProvider (OtherComponent name) = False"

subsection \<open>Backends and inputs of the examples\<close>

definition some_user :: jsval where
  "some_user = JObj [(''id'', JNum ''1''), (''name'', JStr ''Thandi''), (''email'', JStr ''t@example.org'')]"

definition some_email :: jsval where
  "some_email = JStr ''t@example.org''"

definition some_password :: jsval where
  "some_password = JStr ''secret''"

text \<open>A backend that accepts every login and issues the token \<open>abc\<close>.\<close>

definition accepting_backend :: backend where
  "accepting_backend req =
     Resolved \<lparr>status = 200, data = JObj [(''access_token'', JStr ''abc''), (''user'', some_user)]\<rparr>"

text \<open>A backend that refuses every login with 401 and an error message.\<close>

definition refusing_backend :: backend where
  "refusing_backend req =
     Rejected (Some \<lparr>status = 401, data = JObj [(''error'', JStr ''Invalid credentials'')]\<rparr>)"

text \<open>A backend that cannot be reached: the request gets no response.\<close>

definition offline_backend :: backend where
  "offline_backend req = Rejected None"

text \<open>A backend whose 200 reply has no body to read.\<close>

definition empty_body_backend :: backend where
  "empty_body_backend req = Resolved \<lparr>status = 200, data = JNull\<rparr>"

text \<open>A backend whose 200 reply carries as token an object without string form.\<close>

definition unprintable_token_backend :: backend where
  "unprintable_token_backend req =
     Resolved \<lparr>status = 200,
               data = JObj [(''access_token'', JObj [(''toString'', JNum ''1'')]), (''user'', some_user)]\<rparr>"

text \<open>A backend whose 200 reply carries a null token beside the user.\<close>

definition null_token_backend :: backend where
  "null_token_backend req =
     Resolved \<lparr>status = 200, data = JObj [(''access_token'', JNull), (''user'', some_user)]\<rparr>"

text \<open>A backend whose 200 reply carries the empty string as token.\<close>

definition empty_token_backend :: backend where
  "empty_token_backend req =
     Resolved \<lparr>status = 200, data = JObj [(''access_token'', JStr []), (''user'', some_user)]\<rparr>"

text \<open>The session of a browser without cookies, after mount.\<close>

definition fresh_session :: session where
  "fresh_session = hydrate (initial Map.empty)"

text \<open>A bearer token as a backend issues it: a string that is not empty.\<close>

fun is_bearer :: "jsval \<Rightarrow> bool" where
  "is_bearer (JStr t) = (t \<noteq> [])"
| "is_bearer v = False"

text \<open>
  A backend all of whose tokens satisfy \<open>P\<close>: whenever it answers with a 2xx reply whose
  body has an \<open>access_token\<close> to read, that value satisfies \<open>P\<close>.
\<close>

definition issues :: "(jsval \<Rightarrow> bool) \<Rightarrow> backend \<Rightarrow> bool" where
  "issues P backend =
     (\<forall>req r v. backend req = Resolved r \<longrightarrow> get_prop (data r) ''access_token'' = Inr v \<longrightarrow> P v)"

fun action_issues :: "(jsval \<Rightarrow> bool) \<Rightarrow> action \<Rightarrow> bool" where
  "action_issues P (DoLogin backend email password) = issues P backend"
| "action_issues P (DoRegister backend name email password) = issues P backend"
| "action_issues P DoLogout = True"

text \<open>The invariant of the session: a user only with a token.\<close>

definition user_only_with_token :: "session \<Rightarrow> bool" where
  "user_only_with_token s = (non_null (user s) \<longrightarrow> non_null (token s))"

section \<open>The feature views\<close>

text \<open>
  A handler of a view is modelled by the trace of what it does to the world outside
  itself, in the order the statements run: toasts, the \<open>logout()\<close> of the Auth Context,
  navigations, console output, writes of its own React state cells, and for the upload the
  progress value, the simulated-progress timer and the default header of axios.
\<close>

datatype jsnum = Num int | NaN | PosInfinity

datatype effect =
    ToastError jsval
  | ToastSuccess jsval
  | Logout
  | Navigate string
  | ConsoleLog
  | SetState string jsval
  | SetUploadProgress jsnum
  | SetInterval
  | ClearInterval
  | SetDefaultHeader string string

text \<open>The requests of the views carry the token of the session explicitly.\<close>

definition get_request :: "string \<Rightarrow> session \<Rightarrow> request" where
  "get_request path s =
     \<lparr>meth = ''GET'', url = path, auth_header = Some (''Bearer '' @ to_string (token s)),
      body = JUndefined\<rparr>"

definition post_request :: "string \<Rightarrow> jsval \<Rightarrow> session \<Rightarrow> request" where
  "post_request path payload s =
     \<lparr>meth = ''POST'', url = path, auth_header = Some (''Bearer '' @ to_string (token s)),
      body = payload\<rparr>"

text \<open>\<open>a === b\<close> where one side is a number or a string: objects and arrays are never
  identical to a primitive, and NaN is not identical to itself.\<close>

definition strict_eq :: "jsval \<Rightarrow> jsval \<Rightarrow> bool" where
  "strict_eq a b =
     (case (a, b) of
        (JNum x, JNum y) \<Rightarrow> x = y \<and> x \<noteq> ''NaN''
      | (JStr x, JStr y) \<Rightarrow> x = y
      | (JBool x, JBool y) \<Rightarrow> x = y
      | (JNull, JNull) \<Rightarrow> True
      | (JUndefined, JUndefined) \<Rightarrow> True
      | _ \<Rightarrow> False)"

text \<open>\<open>ps.find(p => p.id === pid)\<close> on the elements of an array.\<close>

fun find_id :: "jsval list \<Rightarrow> jsval \<Rightarrow> exn + jsval" where
  "find_id [] pid = Inr JUndefined"
| "find_id (p # ps) pid =
     (case get_prop p ''id'' of
        Inl e \<Rightarrow> Inl e
      | Inr v \<Rightarrow> if strict_eq v pid then Inr p else find_id ps pid)"

text \<open>The same on any value: only an array has \<open>find\<close>.\<close>

fun array_find_id :: "jsval \<Rightarrow> jsval \<Rightarrow> exn + jsval" where
  "array_find_id (JArr ps) pid = find_id ps pid"
| "array_find_id v pid = Inl TypeError"

subsection \<open>Dashboard\<close>

definition Dashboard_fetchProposals_catch :: "exn \<Rightarrow> effect list" where
  "Dashboard_fetchProposals_catch error =
     ConsoleLog #
     (if error_status error = Some 401
      then [ToastError (JStr ''Session expired. Please login again.''), Logout, Navigate ''/login'']
      else [ToastError (JStr ''Failed to fetch proposals'')])"

definition Dashboard_fetchProposals :: "backend \<Rightarrow> session \<Rightarrow> effect list" where
  "Dashboard_fetchProposals backend s =
     (if \<not> truthy (token s) then [ToastError (JStr ''Authentication required'')]
      else (case axios_request backend (get_request ''/user-proposals'' s) of
              Inl e \<Rightarrow> Dashboard_fetchProposals_catch e
            | Inr r \<Rightarrow>
                (case get_prop (data r) ''proposals'' of
                   Inl e \<Rightarrow> Dashboard_fetchProposals_catch e
                 | Inr ps \<Rightarrow> [SetState ''proposals'' (or_else ps (JArr []))])))
     @ [SetState ''loading'' (JBool False)]"

definition Dashboard_downloadProposalPDF_catch :: "exn \<Rightarrow> effect list" where
  "Dashboard_downloadProposalPDF_catch error =
     ConsoleLog #
     (if error_status error = Some 401
      then [ToastError (JStr ''Session expired. Please login again.''), Logout, Navigate ''/login'']
      else [ToastError (or_else (error_message error) (JStr ''Failed to download proposal''))])"

text \<open>
  The statements between the request and the success toast build a Blob and click a
  temporary link of the document. They are the parameter \<open>save\<close>: what they do, and the
  exception they stop at if any.
\<close>

definition Dashboard_downloadProposalPDF ::
  "(jsval \<Rightarrow> response \<Rightarrow> effect list \<times> exn option) \<Rightarrow> backend \<Rightarrow> session \<Rightarrow> jsval \<Rightarrow> jsval \<Rightarrow> effect list" where
  "Dashboard_downloadProposalPDF save backend s proposalId proposalTitle =
     (if \<not> truthy (token s) then [ToastError (JStr ''Authentication required'')]
      else (case axios_request backend (get_request (''/download-proposal/'' @ to_string proposalId) s) of
              Inl e \<Rightarrow> Dashboard_downloadProposalPDF_catch e
            | Inr r \<Rightarrow>
                (case save proposalTitle r of
                   (es, Some e) \<Rightarrow> es @ Dashboard_downloadProposalPDF_catch e
                 | (es, None) \<Rightarrow> es @ [ToastSuccess (JStr ''Business proposal downloaded successfully!'')])))"










subsection \<open>Upload\<close>

text \<open>
  While the upload request is in flight two things write the progress cell: the timer
  started by \<open>setInterval\<close>, every 200 ms, and the \<open>onUploadProgress\<close> callback of the
  transport layer, with the bytes sent so far and the bytes to send.
\<close>

datatype upload_event = Tick | Progress nat nat

text \<open>\<open>prev >= 90\<close> and \<open>prev + 10\<close> on a JavaScript number.\<close>

fun ge90 :: "jsnum \<Rightarrow> bool" where
  "ge90 (Num n) = (90 \<le> n)"
| "ge90 NaN = False"
| "ge90 PosInfinity = True"

fun plus10 :: "jsnum \<Rightarrow> jsnum" where
  "plus10 (Num n) = Num (n + 10)"
| "plus10 NaN = NaN"
| "plus10 PosInfinity = PosInfinity"

text \<open>
  \<open>Math.round((loaded * 100) / total)\<close>: the nearest integer, a half rounded up; 0/0 is
  NaN and a positive number over 0 is Infinity.
\<close>

definition percent :: "nat \<Rightarrow> nat \<Rightarrow> jsnum" where
  "percent loaded tot =
     (if tot = 0 then (if loaded = 0 then NaN else PosInfinity)
      else Num (int ((200 * loaded + tot) div (2 * tot))))"

text \<open>
  The writes of the progress cell while the request is in flight, from the value \<open>prev\<close>
  of the cell and whether the timer is still set. A cleared timer ticks no more.
\<close>

fun in_flight :: "upload_event list \<Rightarrow> jsnum \<Rightarrow> bool \<Rightarrow> effect list" where
  "in_flight [] prev timer = []"
| "in_flight (Tick # evs) prev timer =
     (if \<not> timer then in_flight evs prev timer
      else if ge90 prev then [ClearInterval, SetUploadProgress (Num 90)] @ in_flight evs (Num 90) False
      else SetUploadProgress (plus10 prev) # in_flight evs (plus10 prev) True)"
| "in_flight (Progress loaded tot # evs) prev timer =
     SetUploadProgress (percent loaded tot) # in_flight evs (percent loaded tot) timer"

definition onDrop_catch :: "exn \<Rightarrow> effect list" where
  "onDrop_catch error =
     ConsoleLog #
     (if error_status error = Some 401 \<and> error_message error = JStr ''invalid_token''
      then [ToastError (JStr ''Session expired. Please login again.''), Logout, Navigate ''/login'']
      else [ToastError (or_else (error_message error) (JStr ''Upload failed'')),
            SetState ''uploading'' (JBool False), SetUploadProgress (Num 0),
            SetState ''uploadedFile'' JNull])"

text \<open>
  onDrop, over the files dropped and the events that fire while the request is in
  flight. The navigation of the success branch runs from a timeout 1.5 s later, outside
  the \<open>try\<close>: where reading \<open>response.data.proposal_id\<close> throws, nothing is navigated.
\<close>

definition onDrop :: "backend \<Rightarrow> session \<Rightarrow> jsval list \<Rightarrow> upload_event list \<Rightarrow> effect list" where
  "onDrop backend s acceptedFiles events =
     (case acceptedFiles of
        [] \<Rightarrow> []
      | file # others \<Rightarrow>
          if \<not> truthy file then []
          else [SetState ''uploading'' (JBool True), SetUploadProgress (Num 0),
                SetState ''uploadedFile'' file, SetInterval] @
               (if \<not> truthy (token s)
                then onDrop_catch (JsError ''No authentication token available'')
                else [ConsoleLog, ConsoleLog,
                      SetDefaultHeader ''Authorization'' (''Bearer '' @ to_string (token s))] @
                     in_flight events (Num 0) True @
                     (case axios_request backend
                             (post_request ''/upload-proposal'' (JObj [(''file'', file)]) s) of
                        Inl e \<Rightarrow> onDrop_catch e
                      | Inr r \<Rightarrow>
                          [ClearInterval, SetUploadProgress (Num 100),
                           ToastSuccess (JStr ''File uploaded successfully!'')] @
                          (case get_prop (data r) ''proposal_id'' of
                             Inl e \<Rightarrow> []
                           | Inr pid \<Rightarrow> [Navigate (''/analyze/'' @ to_string pid)]))))"

text \<open>The values assigned to the progress cell, in order.\<close>

fun progress_values :: "effect list \<Rightarrow> jsnum list" where
  "progress_values [] = []"
| "progress_values (SetUploadProgress p # es) = p # progress_values es"
| "progress_values (e # es) = progress_values es"

subsection \<open>Funding\<close>

text \<open>In the handlers below \<open>route_id\<close> is the route parameter \<open>id\<close> of the page and \<open>pid\<close>
  is \<open>parseInt(id)\<close>.\<close>

definition Funding_fetchProposalData :: "backend \<Rightarrow> session \<Rightarrow> jsval \<Rightarrow> effect list" where
  "Funding_fetchProposalData backend s pid =
     (if \<not> truthy (token s) then []
      else (case axios_request backend (get_request ''/user-proposals'' s) of
              Inl e \<Rightarrow> [ConsoleLog]
            | Inr r \<Rightarrow>
                (case get_prop (data r) ''proposals'' of
                   Inl e \<Rightarrow> [ConsoleLog]
                 | Inr ps \<Rightarrow>
                     (case array_find_id ps pid of
                        Inl e \<Rightarrow> [ConsoleLog]
                      | Inr proposal \<Rightarrow>
                          if truthy proposal then [SetState ''proposalData'' proposal] else []))))"

definition Funding_fetchRecommendations_catch :: "exn \<Rightarrow> effect list" where
  "Funding_fetchRecommendations_catch error =
     ConsoleLog #
     (if error_status error = Some 401
      then [ToastError (JStr ''Session expired. Please login again.''), Logout, Navigate ''/login'']
      else [ToastError (or_else (error_message error) (JStr ''Failed to fetch funding recommendations''))])"

definition Funding_fetchRecommendations :: "backend \<Rightarrow> session \<Rightarrow> jsval \<Rightarrow> jsval \<Rightarrow> effect list" where
  "Funding_fetchRecommendations backend s route_id pid =
     (if \<not> truthy (token s) then [ToastError (JStr ''Authentication required''), Navigate ''/login'']
      else (case axios_request backend (get_request (''/funding-recommendations/'' @ to_string route_id) s) of
              Inl e \<Rightarrow> Funding_fetchRecommendations_catch e
            | Inr r \<Rightarrow>
                (case get_prop (data r) ''recommendations'' of
                   Inl e \<Rightarrow> Funding_fetchRecommendations_catch e
                 | Inr recs \<Rightarrow>
                     SetState ''recommendations'' (or_else recs (JArr [])) #
                     Funding_fetchProposalData backend s pid)))
     @ [SetState ''loading'' (JBool False)]"

definition Funding_searchFundersRealtime_catch :: "exn \<Rightarrow> effect list" where
  "Funding_searchFundersRealtime_catch error =
     ConsoleLog #
     (if error_status error = Some 401
      then [ToastError (JStr ''Session expired. Please login again.''), Logout, Navigate ''/login'']
      else [ToastError (or_else (error_message error) (JStr ''Failed to search for funders''))])"

definition Funding_searchFundersRealtime :: "backend \<Rightarrow> session \<Rightarrow> jsval \<Rightarrow> effect list" where
  "Funding_searchFundersRealtime backend s pid =
     SetState ''searching'' (JBool True) #
     (if \<not> truthy (token s) then [ToastError (JStr ''Authentication required''), Navigate ''/login'']
      else (case axios_request backend (post_request ''/search-funders'' (JObj [(''proposal_id'', pid)]) s) of
              Inl e \<Rightarrow> Funding_searchFundersRealtime_catch e
            | Inr r \<Rightarrow>
                (case get_prop (data r) ''funders'' of
                   Inl e \<Rightarrow> Funding_searchFundersRealtime_catch e
                 | Inr funders \<Rightarrow>
                     SetState ''searchResults'' (or_else funders (JArr [])) #
                     (case get_prop (data r) ''total_found'' of
                        Inl e \<Rightarrow> Funding_searchFundersRealtime_catch e
                      | Inr n \<Rightarrow>
                          [ToastSuccess (JStr (''Found '' @ to_string n @
                                               '' additional funding opportunities!''))]))))
     @ [SetState ''searching'' (JBool False)]"

subsection \<open>Analysis\<close>

definition Analysis_fetchBusinessPlanContent :: "backend \<Rightarrow> session \<Rightarrow> jsval \<Rightarrow> effect list" where
  "Analysis_fetchBusinessPlanContent backend s proposalId =
     (if \<not> truthy (token s) then []
      else (case axios_request backend (get_request (''/proposal-content/'' @ to_string proposalId) s) of
              Inl e \<Rightarrow> [ConsoleLog]
            | Inr r \<Rightarrow>
                (case get_prop (data r) ''business_plan'' of
                   Inl e \<Rightarrow> [ConsoleLog]
                 | Inr plan \<Rightarrow> [SetState ''businessPlanContent'' plan])))"

definition Analysis_fetchProposalData_catch :: "exn \<Rightarrow> effect list" where
  "Analysis_fetchProposalData_catch error =
     ConsoleLog #
     (if error_status error = Some 401
      then [ToastError (JStr ''Session expired. Please login again.''), Logout, Navigate ''/login'']
      else [ToastError (JStr ''Failed to fetch proposal data''), Navigate ''/dashboard''])"

text \<open>
  What fetchProposalData does with the proposal it found. \<open>fetchBusinessPlanContent\<close> is
  called without \<open>await\<close>: what it does after its own request comes after the \<open>finally\<close>
  of the caller, and is the second component.
\<close>

definition Analysis_show_proposal :: "backend \<Rightarrow> session \<Rightarrow> jsval \<Rightarrow> jsval \<Rightarrow> effect list \<times> effect list" where
  "Analysis_show_proposal backend s pid currentProposal =
     (if truthy currentProposal
      then (case get_prop currentProposal ''status'' of
              Inl e \<Rightarrow> (SetState ''proposal'' currentProposal # Analysis_fetchProposalData_catch e, [])
            | Inr st \<Rightarrow>
                (case get_prop currentProposal ''score'' of
                   Inl e \<Rightarrow> (SetState ''proposal'' currentProposal # Analysis_fetchProposalData_catch e, [])
                 | Inr score \<Rightarrow>
                     (SetState ''proposal'' currentProposal #
                      (if st = JStr ''analyzed''
                       then [SetState ''analysis'' (JObj [(''score'', score), (''status'', st)])]
                       else []),
                      Analysis_fetchBusinessPlanContent backend s pid)))
      else ([ToastError (JStr ''Proposal not found''), Navigate ''/dashboard''], []))"

definition Analysis_fetchProposalData :: "backend \<Rightarrow> session \<Rightarrow> jsval \<Rightarrow> effect list" where
  "Analysis_fetchProposalData backend s pid =
     (let (now, later) =
        (if \<not> truthy (token s)
         then ([ToastError (JStr ''Authentication required''), Navigate ''/login''], [])
         else (case axios_request backend (get_request ''/user-proposals'' s) of
                 Inl e \<Rightarrow> (Analysis_fetchProposalData_catch e, [])
               | Inr r \<Rightarrow>
                   (case get_prop (data r) ''proposals'' of
                      Inl e \<Rightarrow> (Analysis_fetchProposalData_catch e, [])
                    | Inr ps \<Rightarrow>
                        (case array_find_id (or_else ps (JArr [])) pid of
                           Inl e \<Rightarrow> (Analysis_fetchProposalData_catch e, [])
                         | Inr currentProposal \<Rightarrow>
                             Analysis_show_proposal backend s pid currentProposal))))
      in now @ [SetState ''loading'' (JBool False)] @ later)"

definition Analysis_analyzeProposal_catch :: "exn \<Rightarrow> effect list" where
  "Analysis_analyzeProposal_catch error =
     (if error_status error = Some 401
      then [ToastError (JStr ''Session expired. Please login again.''), Logout, Navigate ''/login'']
      else [ToastError (or_else (error_message error) (JStr ''Failed to analyze proposal''))])"

text \<open>
  analyzeProposal refreshes the proposal with \<open>fetchProposalData()\<close>, again without
  \<open>await\<close>: the refresh does its work after the \<open>finally\<close> of analyzeProposal.
\<close>

definition Analysis_analyzeProposal :: "backend \<Rightarrow> session \<Rightarrow> jsval \<Rightarrow> jsval \<Rightarrow> effect list" where
  "Analysis_analyzeProposal backend s route_id pid =
     SetState ''analyzing'' (JBool True) #
     (let (now, later) =
        (if \<not> truthy (token s) then ([ToastError (JStr ''Authentication required'')], [])
         else (case axios_request backend
                      (post_request (''/analyze-proposal/'' @ to_string route_id) (JObj []) s) of
                 Inl e \<Rightarrow> (Analysis_analyzeProposal_catch e, [])
               | Inr r \<Rightarrow>
                   (case get_prop (data r) ''analysis'' of
                      Inl e \<Rightarrow> (Analysis_analyzeProposal_catch e, [])
                    | Inr analysis \<Rightarrow>
                        ([SetState ''analysis'' analysis,
                          ToastSuccess (JStr ''Proposal analyzed successfully!'')],
                         Analysis_fetchProposalData backend s pid))))
      in now @ [SetState ''analyzing'' (JBool False)] @ later)"

definition Analysis_downloadProposalPDF_catch :: "exn \<Rightarrow> effect list" where
  "Analysis_downloadProposalPDF_catch error =
     ConsoleLog #
     (if error_status error = Some 401
      then [ToastError (JStr ''Session expired. Please login again.''), Logout, Navigate ''/login'']
      else [ToastError (or_else (error_message error) (JStr ''Failed to download proposal''))])"

text \<open>As in the Dashboard, \<open>save\<close> is the Blob and link work, here over the state cell
  \<open>proposal\<close> of the view, whose title names the file.\<close>

definition Analysis_downloadProposalPDF ::
  "(jsval \<Rightarrow> response \<Rightarrow> effect list \<times> exn option) \<Rightarrow> backend \<Rightarrow> session \<Rightarrow> jsval \<Rightarrow> jsval \<Rightarrow> effect list" where
  "Analysis_downloadProposalPDF save backend s route_id proposal =
     (if \<not> truthy (token s) then [ToastError (JStr ''Authentication required'')]
      else (case axios_request backend (get_request (''/download-proposal/'' @ to_string route_id) s) of
              Inl e \<Rightarrow> Analysis_downloadProposalPDF_catch e
            | Inr r \<Rightarrow>
                (case save proposal r of
                   (es, Some e) \<Rightarrow> es @ Analysis_downloadProposalPDF_catch e
                 | (es, None) \<Rightarrow> es @ [ToastSuccess (JStr ''Business proposal downloaded successfully!'')])))"

subsection \<open>Generator\<close>

definition handleSubmit_catch :: "exn \<Rightarrow> effect list" where
  "handleSubmit_catch error =
     ConsoleLog #
     (if error_status error = Some 401
      then [ToastError (JStr ''Session expired. Please login again.''), Logout, Navigate ''/login'']
      else [ToastError (or_else (error_message error) (JStr ''Failed to generate business plan''))])"

definition handleSubmit :: "backend \<Rightarrow> session \<Rightarrow> jsval \<Rightarrow> effect list" where
  "handleSubmit backend s formData =
     SetState ''loading'' (JBool True) #
     (if \<not> truthy (token s) then [ToastError (JStr ''Authentication required'')]
      else (case axios_request backend (post_request ''/generate-business-plan'' formData s) of
              Inl e \<Rightarrow> handleSubmit_catch e
            | Inr r \<Rightarrow>
                ToastSuccess (JStr ''Business plan generated successfully!'') #
                (case get_prop (data r) ''proposal_id'' of
                   Inl e \<Rightarrow> handleSubmit_catch e
                 | Inr pid \<Rightarrow> [Navigate (''/analyze/'' @ to_string pid)])))
     @ [SetState ''loading'' (JBool False)]"

subsection \<open>What a user observes of a handler\<close>

text \<open>
  The side effects the common contract of the views speaks of: notifications, the
  logout of the session, navigations.
\<close>

fun observed :: "effect list \<Rightarrow> effect list" where
  "observed [] = []"
| "observed (ToastError m # es) = ToastError m # observed es"
| "observed (ToastSuccess m # es) = ToastSuccess m # observed es"
| "observed (Logout # es) = Logout # observed es"
| "observed (Navigate path # es) = Navigate path # observed es"
| "observed (e # es) = observed es"

text \<open>One error notification, one logout, one navigation to the login view, in that order.\<close>

definition session_expired :: "effect list" where
  "session_expired =
     [ToastError (JStr ''Session expired. Please login again.''), Logout, Navigate ''/login'']"

text \<open>The reply \<open>r\<close> of the backend carries HTTP 401.\<close>

definition unauthorized :: "reply \<Rightarrow> bool" where
  "unauthorized r = (case r of Resolved x \<Rightarrow> False | Rejected None \<Rightarrow> False | Rejected (Some x) \<Rightarrow> status x = 401)"

text \<open>The body of a rejected reply, undefined where there is none.\<close>

definition reply_error :: "reply \<Rightarrow> jsval" where
  "reply_error r = (case r of Resolved x \<Rightarrow> JUndefined | Rejected ro \<Rightarrow> error_message (AxiosError ro))"

subsection \<open>Backends, sessions and inputs of the examples for the views\<close>

text \<open>A session that holds the token \<open>abc\<close>.\<close>

definition signed_in :: session where
  "signed_in = snd (login accepting_backend some_email some_password fresh_session)"

text \<open>A backend that answers every request with 401 and the error \<open>invalid_token\<close>.\<close>

definition expired_backend :: backend where
  "expired_backend req =
     Rejected (Some \<lparr>status = 401, data = JObj [(''error'', JStr ''invalid_token'')]\<rparr>)"

text \<open>A backend that answers every request with 401 and the error \<open>token_expired\<close>.\<close>

definition unauthorized_backend :: backend where
  "unauthorized_backend req =
     Rejected (Some \<lparr>status = 401, data = JObj [(''error'', JStr ''token_expired'')]\<rparr>)"

text \<open>A backend that stores every upload as proposal 7.\<close>

definition storing_backend :: backend where
  "storing_backend req = Resolved \<lparr>status = 200, data = JObj [(''proposal_id'', JNum ''7'')]\<rparr>"

definition some_file :: jsval where
  "some_file = JObj [(''name'', JStr ''plan.pdf'')]"

text \<open>No Blob work at all, as a stand-in for \<open>save\<close>.\<close>

definition no_save :: "jsval \<Rightarrow> response \<Rightarrow> effect list \<times> exn option" where
  "no_save title r = ([], None)"

definition analyzed_proposal :: jsval where
  "analyzed_proposal =
     JObj [(''id'', JNum ''1''), (''title'', JStr ''Bakery''), (''type'', JStr ''generated''),
           (''status'', JStr ''analyzed'')]"



section \<open>Properties of the Auth Context\<close>

subsection \<open>Helper facts\<close>

lemma get_prop_throws:
  assumes "get_prop v k = Inl e"
  shows "e = TypeError \<and> get_prop v k' = Inl TypeError"
  using assms by (cases v) simp_all

lemma is_bearer_truthy: "is_bearer v \<Longrightarrow> truthy v \<and> non_null v"
  by (cases v) (simp_all add: non_null_def)

lemma token_initial: "token (initial jar) = JNull" "user (initial jar) = JNull"
  by (simp_all add: initial_def)

lemma token_hydrate:
  "token (hydrate s) = token s \<or> is_bearer (token (hydrate s))"
  by (auto simp: hydrate_def Let_def Cookies_get_def split: option.splits)

lemma user_hydrate: "user (hydrate s) = user s"
  by (simp add: hydrate_def Let_def)

lemma token_store_token:
  "(snd (store_token r s) = s)
   \<or> (\<exists>v. get_prop (data r) ''access_token'' = Inr v \<and> token (snd (store_token r s)) = v)"
  by (auto simp: store_token_def Let_def Cookies_set_def split: sum.splits)

lemma token_login:
  "snd (login backend email password s) = s
   \<or> (\<exists>r v. backend (login_request email password s) = Resolved r
          \<and> get_prop (data r) ''access_token'' = Inr v
          \<and> token (snd (login backend email password s)) = v)"
  using token_store_token
  by (auto simp: login_def login_try_def axios_request_def split: sum.splits prod.splits reply.splits)
    (metis snd_conv)+

lemma token_register:
  "snd (register backend name email password s) = s
   \<or> (\<exists>r v. backend (register_request name email password s) = Resolved r
          \<and> get_prop (data r) ''access_token'' = Inr v
          \<and> token (snd (register backend name email password s)) = v)"
  using token_store_token
  by (auto simp: register_def register_try_def axios_request_def split: sum.splits prod.splits reply.splits)
    (metis snd_conv)+

lemma token_logout: "token (logout s) = JNull" "user (logout s) = JNull"
  by (simp_all add: logout_def Let_def Cookies_remove_def)

lemma step_token:
  assumes "action_issues P a" and "P (token s) \<or> token s = JNull"
  shows "P (token (step s a)) \<or> token (step s a) = JNull"
proof (cases a)
  case (DoLogin backend email password)
  with assms token_login [of backend email password s] show ?thesis
    by (auto simp: issues_def)
next
  case (DoRegister backend name email password)
  with assms token_register [of backend name email password s] show ?thesis
    by (auto simp: issues_def)
next
  case DoLogout
  then show ?thesis by (simp add: token_logout)
qed

lemma foldl_step_token:
  assumes "\<forall>a\<in>set acts. action_issues P a" and "P (token s) \<or> token s = JNull"
  shows "P (token (foldl step s acts)) \<or> token (foldl step s acts) = JNull"
  using assms
proof (induction acts arbitrary: s)
  case Nil
  then show ?case by simp
next
  case (Cons a acts)
  have "P (token (step s a)) \<or> token (step s a) = JNull"
    using Cons.prems step_token [of P a s] by simp
  with Cons show ?case by simp
qed

lemma bearer_after:
  assumes "\<forall>a\<in>set acts. action_issues is_bearer a"
  shows "is_bearer (token (session_after jar acts)) \<or> token (session_after jar acts) = JNull"
  unfolding session_after_def
proof (rule foldl_step_token [OF assms])
  show "is_bearer (token (hydrate (initial jar))) \<or> token (hydrate (initial jar)) = JNull"
    using token_hydrate [of "initial jar"] by (auto simp: token_initial)
qed

lemma accepting_issues_bearer: "issues is_bearer accepting_backend"
  by (auto simp: issues_def accepting_backend_def)

lemma session_after_login:
  "session_after Map.empty [DoLogin backend email password] = snd (login backend email password fresh_session)"
  by (simp add: session_after_def fresh_session_def)

lemma token_signed_in: "token signed_in = JStr ''abc''"
  by (simp add: signed_in_def login_def login_try_def axios_request_def accepting_backend_def store_token_def
        Cookies_set_def Let_def)

subsection \<open>Login\<close>

text \<open>
  C3, as the code has it. If \<open>login(email, password)\<close> succeeds, the backend answered
  with a 2xx reply, and afterwards the session token is the \<open>access_token\<close> of that reply
  (so it is non-null exactly when the backend sent a non-null one), the user is the
  \<open>user\<close> of the reply, the cookie named \<open>token\<close> holds the token as a string with an
  expiry of 1 day, and the default Authorization header of the shared client is
  \<open>Bearer\<close> followed by the token.
\<close>

theorem login_success_stores_token:
  assumes "fst (login backend email password s) = Inr (Success u)"
  shows "\<exists>r. backend (login_request email password s) = Resolved r
           \<and> get_prop (data r) ''access_token'' = Inr (token (snd (login backend email password s)))
           \<and> get_prop (data r) ''user'' = Inr u
           \<and> user (snd (login backend email password s)) = u
           \<and> cookies (snd (login backend email password s)) ''token''
               = Some \<lparr>cookie_value = to_string (token (snd (login backend email password s))), expires = 1\<rparr>
           \<and> headers (snd (login backend email password s)) ''Authorization''
               = Some (''Bearer '' @ to_string (token (snd (login backend email password s))))"
  using assms
  by (auto simp: login_def login_try_def axios_request_def store_token_def Cookies_set_def Let_def
           split: sum.splits prod.splits reply.splits)

theorem login_success_stores_token_witness:
  "fst (login accepting_backend some_email some_password fresh_session) = Inr (Success some_user)
   \<and> token signed_in = JStr ''abc''
   \<and> cookies signed_in ''token'' = Some \<lparr>cookie_value = ''abc'', expires = 1\<rparr>
   \<and> headers signed_in ''Authorization'' = Some ''Bearer abc''"
proof -
  have f: "fst (login accepting_backend some_email some_password fresh_session) = Inr (Success some_user)"
    by (simp add: login_def login_try_def axios_request_def accepting_backend_def store_token_def Let_def)
  from login_success_stores_token [OF f] obtain r where
    r: "accepting_backend (login_request some_email some_password fresh_session) = Resolved r"
    and tk: "get_prop (data r) ''access_token'' = Inr (token signed_in)"
    and ck: "cookies signed_in ''token'' = Some \<lparr>cookie_value = to_string (token signed_in), expires = 1\<rparr>"
    and hd: "headers signed_in ''Authorization'' = Some (''Bearer '' @ to_string (token signed_in))"
    unfolding signed_in_def by blast
  from r have "data r = JObj [(''access_token'', JStr ''abc''), (''user'', some_user)]"
    by (auto simp: accepting_backend_def)
  with tk have "token signed_in = JStr ''abc''" by simp
  with f ck hd show ?thesis by simp
qed

text \<open>
  The claim as it is written also promises a non-null token after every successful login.
  A 2xx reply with a null \<open>access_token\<close> makes login return \<open>{success: true, user}\<close>
  and leaves the token null.
\<close>

theorem login_success_null_token_counterexample:
  "fst (login null_token_backend some_email some_password fresh_session) = Inr (Success some_user)
   \<and> token (snd (login null_token_backend some_email some_password fresh_session)) = JNull
   \<and> \<not> non_null (token (snd (login null_token_backend some_email some_password fresh_session)))"
  by (simp add: login_def login_try_def axios_request_def null_token_backend_def store_token_def
      Cookies_set_def Let_def non_null_def)

text \<open>
  C4. For every input, every session and every backend, login and register throw nothing
  to the caller; they return \<open>{success: true, user}\<close> or \<open>{success: false, error}\<close>, and
  which of the two is decided by the reply. A rejected request, with a response of any
  status and body or with none at all, gives \<open>{success: false, error}\<close>, where \<open>error\<close> is
  the error field of the response body when that is truthy and the fixed message
  otherwise. A 2xx reply whose body cannot be read, or whose token has no string form,
  gives \<open>{success: false, error}\<close> with the fixed message. Every other 2xx reply gives
  \<open>{success: true, user}\<close> with the user of the body. The error of a failure is never a
  falsy value.
\<close>

theorem login_register_never_throw:
  "(\<exists>res. fst (login backend email password s) = Inr res)
   \<and> (backend (login_request email password s) = Rejected ro \<longrightarrow>
        fst (login backend email password s)
          = Inr (Failure (or_else (error_message (AxiosError ro)) (JStr ''Login failed''))))
   \<and> (backend (login_request email password s) = Resolved r \<longrightarrow> \<not> non_null (data r) \<longrightarrow>
        fst (login backend email password s) = Inr (Failure (JStr ''Login failed'')))
   \<and> (backend (login_request email password s) = Resolved r \<longrightarrow>
        get_prop (data r) ''access_token'' = Inr tok \<longrightarrow> \<not> coercible tok \<longrightarrow>
        fst (login backend email password s) = Inr (Failure (JStr ''Login failed'')))
   \<and> (backend (login_request email password s) = Resolved r \<longrightarrow>
        get_prop (data r) ''access_token'' = Inr tok \<longrightarrow> coercible tok \<longrightarrow>
        get_prop (data r) ''user'' = Inr u \<longrightarrow>
        fst (login backend email password s) = Inr (Success u))
   \<and> (fst (login backend email password s) = Inr (Failure err) \<longrightarrow> truthy err)
   \<and> (\<exists>res. fst (register backend name email password s) = Inr res)
   \<and> (backend (register_request name email password s) = Rejected ro' \<longrightarrow>
        fst (register backend name email password s)
          = Inr (Failure (or_else (error_message (AxiosError ro')) (JStr ''Registration failed''))))
   \<and> (backend (register_request name email password s) = Resolved r' \<longrightarrow> \<not> non_null (data r') \<longrightarrow>
        fst (register backend name email password s) = Inr (Failure (JStr ''Registration failed'')))
   \<and> (backend (register_request name email password s) = Resolved r' \<longrightarrow>
        get_prop (data r') ''access_token'' = Inr tok' \<longrightarrow> \<not> coercible tok' \<longrightarrow>
        fst (register backend name email password s) = Inr (Failure (JStr ''Registration failed'')))
   \<and> (backend (register_request name email password s) = Resolved r' \<longrightarrow>
        get_prop (data r') ''access_token'' = Inr tok' \<longrightarrow> coercible tok' \<longrightarrow>
        get_prop (data r') ''user'' = Inr u' \<longrightarrow>
        fst (register backend name email password s) = Inr (Success u'))
   \<and> (fst (register backend name email password s) = Inr (Failure err') \<longrightarrow> truthy err')"
proof (intro conjI impI)
  show "\<exists>res. fst (login backend email password s) = Inr res"
    by (simp add: login_def split: prod.splits sum.splits)
  show "\<exists>res. fst (register backend name email password s) = Inr res"
    by (simp add: register_def split: prod.splits sum.splits)
next
  assume "backend (login_request email password s) = Rejected ro"
  then show "fst (login backend email password s)
          = Inr (Failure (or_else (error_message (AxiosError ro)) (JStr ''Login failed'')))"
    by (simp add: login_def login_try_def axios_request_def)
next
  assume "backend (login_request email password s) = Resolved r" and "\<not> non_null (data r)"
  then show "fst (login backend email password s) = Inr (Failure (JStr ''Login failed''))"
    by (auto simp: login_def login_try_def axios_request_def store_token_def non_null_def
        error_message_def or_else_def)
next
  assume "backend (login_request email password s) = Resolved r"
    and "get_prop (data r) ''access_token'' = Inr tok" and "\<not> coercible tok"
  then show "fst (login backend email password s) = Inr (Failure (JStr ''Login failed''))"
    by (auto simp: login_def login_try_def axios_request_def store_token_def
        error_message_def or_else_def split: sum.splits
        dest: get_prop_throws [where k' = "''access_token''"])
next
  assume "backend (login_request email password s) = Resolved r"
    and "get_prop (data r) ''access_token'' = Inr tok" and "coercible tok"
    and "get_prop (data r) ''user'' = Inr u"
  then show "fst (login backend email password s) = Inr (Success u)"
    by (simp add: login_def login_try_def axios_request_def store_token_def Let_def)
next
  assume "fst (login backend email password s) = Inr (Failure err)"
  then show "truthy err"
    by (auto simp: login_def login_try_def store_token_def Let_def or_else_def
        split: prod.splits sum.splits if_splits)
next
  assume "backend (register_request name email password s) = Rejected ro'"
  then show "fst (register backend name email password s)
          = Inr (Failure (or_else (error_message (AxiosError ro')) (JStr ''Registration failed'')))"
    by (simp add: register_def register_try_def axios_request_def)
next
  assume "backend (register_request name email password s) = Resolved r'" and "\<not> non_null (data r')"
  then show "fst (register backend name email password s) = Inr (Failure (JStr ''Registration failed''))"
    by (auto simp: register_def register_try_def axios_request_def store_token_def non_null_def
        error_message_def or_else_def)
next
  assume "backend (register_request name email password s) = Resolved r'"
    and "get_prop (data r') ''access_token'' = Inr tok'" and "\<not> coercible tok'"
  then show "fst (register backend name email password s) = Inr (Failure (JStr ''Registration failed''))"
    by (auto simp: register_def register_try_def axios_request_def store_token_def
        error_message_def or_else_def split: sum.splits
        dest: get_prop_throws [where k' = "''access_token''"])
next
  assume "backend (register_request name email password s) = Resolved r'"
    and "get_prop (data r') ''access_token'' = Inr tok'" and "coercible tok'"
    and "get_prop (data r') ''user'' = Inr u'"
  then show "fst (register backend name email password s) = Inr (Success u')"
    by (simp add: register_def register_try_def axios_request_def store_token_def Let_def)
next
  assume "fst (register backend name email password s) = Inr (Failure err')"
  then show "truthy err'"
    by (auto simp: register_def register_try_def store_token_def Let_def or_else_def
        split: prod.splits sum.splits if_splits)
qed

theorem login_register_never_throw_witness:
  "fst (login refusing_backend some_email some_password fresh_session)
     = Inr (Failure (JStr ''Invalid credentials''))
   \<and> fst (login offline_backend some_email some_password fresh_session)
     = Inr (Failure (JStr ''Login failed''))
   \<and> fst (login empty_body_backend some_email some_password fresh_session)
     = Inr (Failure (JStr ''Login failed''))
   \<and> fst (login unprintable_token_backend some_email some_password fresh_session)
     = Inr (Failure (JStr ''Login failed''))
   \<and> fst (login accepting_backend some_email some_password fresh_session) = Inr (Success some_user)
   \<and> truthy (JStr ''Invalid credentials'')
   \<and> fst (register refusing_backend (JStr ''Thandi'') some_email some_password fresh_session)
     = Inr (Failure (JStr ''Invalid credentials''))
   \<and> fst (register offline_backend (JStr ''Thandi'') some_email some_password fresh_session)
     = Inr (Failure (JStr ''Registration failed''))
   \<and> fst (register empty_body_backend (JStr ''Thandi'') some_email some_password fresh_session)
     = Inr (Failure (JStr ''Registration failed''))
   \<and> fst (register unprintable_token_backend (JStr ''Thandi'') some_email some_password fresh_session)
     = Inr (Failure (JStr ''Registration failed''))
   \<and> fst (register accepting_backend (JStr ''Thandi'') some_email some_password fresh_session)
     = Inr (Success some_user)"
proof -
  let ?refused = "Some \<lparr>status = 401, data = JObj [(''error'', JStr ''Invalid credentials'')]\<rparr>"
  let ?empty = "\<lparr>status = 200, data = JNull\<rparr>"
  let ?unprintable = "\<lparr>status = 200,
      data = JObj [(''access_token'', JObj [(''toString'', JNum ''1'')]), (''user'', some_user)]\<rparr>"
  let ?accepted = "\<lparr>status = 200, data = JObj [(''access_token'', JStr ''abc''), (''user'', some_user)]\<rparr>"
  have m: "or_else (error_message (AxiosError ?refused)) (JStr msg) = JStr ''Invalid credentials''" for msg
    by (simp add: error_message_def or_else_def)
  have n: "or_else (error_message (AxiosError None)) (JStr (c # cs)) = JStr (c # cs)" for c cs
    by (simp add: error_message_def or_else_def)
  from login_register_never_throw
         [of refusing_backend some_email some_password fresh_session ?refused _ _ _ _ "JStr ''Thandi''" ?refused]
  have a: "fst (login refusing_backend some_email some_password fresh_session)
             = Inr (Failure (JStr ''Invalid credentials''))"
    "fst (register refusing_backend (JStr ''Thandi'') some_email some_password fresh_session)
             = Inr (Failure (JStr ''Invalid credentials''))"
    by (simp_all add: refusing_backend_def m)
  from login_register_never_throw
         [of offline_backend some_email some_password fresh_session None _ _ _ _ "JStr ''Thandi''" None]
  have b: "fst (login offline_backend some_email some_password fresh_session)
             = Inr (Failure (JStr ''Login failed''))"
    "fst (register offline_backend (JStr ''Thandi'') some_email some_password fresh_session)
             = Inr (Failure (JStr ''Registration failed''))"
    by (simp_all add: offline_backend_def n)
  from login_register_never_throw
         [of empty_body_backend some_email some_password fresh_session _ ?empty _ _ _ "JStr ''Thandi''" _ ?empty]
  have c: "fst (login empty_body_backend some_email some_password fresh_session)
             = Inr (Failure (JStr ''Login failed''))"
    "fst (register empty_body_backend (JStr ''Thandi'') some_email some_password fresh_session)
             = Inr (Failure (JStr ''Registration failed''))"
    by (simp_all add: empty_body_backend_def non_null_def)
  from login_register_never_throw
         [of unprintable_token_backend some_email some_password fresh_session _ ?unprintable
             "JObj [(''toString'', JNum ''1'')]" _ _ "JStr ''Thandi''" _ ?unprintable
             "JObj [(''toString'', JNum ''1'')]"]
  have d: "fst (login unprintable_token_backend some_email some_password fresh_session)
             = Inr (Failure (JStr ''Login failed''))"
    "fst (register unprintable_token_backend (JStr ''Thandi'') some_email some_password fresh_session)
             = Inr (Failure (JStr ''Registration failed''))"
    by (simp_all add: unprintable_token_backend_def)
  from login_register_never_throw
         [of accepting_backend some_email some_password fresh_session _ ?accepted
             "JStr ''abc''" some_user _ "JStr ''Thandi''" _ ?accepted "JStr ''abc''" some_user]
  have e: "fst (login accepting_backend some_email some_password fresh_session) = Inr (Success some_user)"
    "fst (register accepting_backend (JStr ''Thandi'') some_email some_password fresh_session)
             = Inr (Success some_user)"
    by (simp_all add: accepting_backend_def)
  from login_register_never_throw
         [of refusing_backend some_email some_password fresh_session _ _ _ _ "JStr ''Invalid credentials''"]
       a(1)
  have f: "truthy (JStr ''Invalid credentials'')" by blast
  from a b c d e f show ?thesis by simp
qed

text \<open>
  C5. For every session state and every login that returns \<open>{success: false, error}\<close>,
  the session is unchanged: token, user, cookies and default headers are what they were.
\<close>

theorem failed_login_keeps_state:
  assumes "fst (login backend email password s) = Inr (Failure err)"
  shows "snd (login backend email password s) = s"
  using assms
  by (auto simp: login_def login_try_def store_token_def Let_def split: sum.splits prod.splits)

theorem failed_login_keeps_state_witness:
  "fst (login refusing_backend some_email some_password signed_in) = Inr (Failure (JStr ''Invalid credentials''))
   \<and> snd (login refusing_backend some_email some_password signed_in) = signed_in
   \<and> token signed_in = JStr ''abc''"
proof -
  have f: "fst (login refusing_backend some_email some_password signed_in) = Inr (Failure (JStr ''Invalid credentials''))"
    by (simp add: login_def login_try_def axios_request_def refusing_backend_def error_message_def or_else_def)
  from failed_login_keeps_state [OF f] f token_signed_in show ?thesis by simp
qed

subsection \<open>Logout\<close>

text \<open>
  C6. From every session state, after \<open>logout()\<close> the token is null, the user is null, the
  cookie named \<open>token\<close> is removed and the default Authorization header is absent; and a
  second logout leaves the state of the first unchanged.
\<close>

theorem logout_clears_and_idempotent:
  "token (logout s) = JNull \<and> user (logout s) = JNull
   \<and> cookies (logout s) ''token'' = None
   \<and> Cookies_get ''token'' (logout s) = JUndefined
   \<and> headers (logout s) ''Authorization'' = None
   \<and> logout (logout s) = logout s"
  by (simp add: logout_def Cookies_remove_def Cookies_get_def Let_def)

subsection \<open>isAuthenticated\<close>

text \<open>
  C7, as the code has it. \<open>isAuthenticated\<close> is \<open>!!token\<close>. Before mount, and in every
  state reached from mount by logins, registrations and logouts against backends whose
  tokens are non-empty strings, \<open>isAuthenticated\<close> is true if and only if the token is
  non-null.
\<close>

theorem isAuthenticated_iff_token:
  "isAuthenticated (initial jar) = non_null (token (initial jar))
   \<and> ((\<forall>a\<in>set acts. action_issues is_bearer a) \<longrightarrow>
        isAuthenticated (session_after jar acts) = non_null (token (session_after jar acts)))"
proof (intro conjI impI)
  show "isAuthenticated (initial jar) = non_null (token (initial jar))"
    by (simp add: isAuthenticated_def initial_def non_null_def)
next
  assume "\<forall>a\<in>set acts. action_issues is_bearer a"
  from bearer_after [OF this, of jar]
  show "isAuthenticated (session_after jar acts) = non_null (token (session_after jar acts))"
    by (auto simp: isAuthenticated_def non_null_def dest: is_bearer_truthy)
qed

theorem isAuthenticated_iff_token_witness:
  "issues is_bearer accepting_backend
   \<and> isAuthenticated (session_after Map.empty [DoLogin accepting_backend some_email some_password])
   \<and> non_null (token (session_after Map.empty [DoLogin accepting_backend some_email some_password]))
   \<and> \<not> isAuthenticated (session_after Map.empty [DoLogin accepting_backend some_email some_password, DoLogout])"
proof -
  have h1: "\<forall>a\<in>set [DoLogin accepting_backend some_email some_password]. action_issues is_bearer a"
    by (simp add: accepting_issues_bearer)
  have h2: "\<forall>a\<in>set [DoLogin accepting_backend some_email some_password, DoLogout]. action_issues is_bearer a"
    by (simp add: accepting_issues_bearer)
  have t1: "token (session_after Map.empty [DoLogin accepting_backend some_email some_password]) = JStr ''abc''"
    using token_signed_in by (simp add: session_after_login signed_in_def)
  have t2: "token (session_after Map.empty [DoLogin accepting_backend some_email some_password, DoLogout]) = JNull"
    by (simp add: session_after_def token_logout)
  from isAuthenticated_iff_token [of Map.empty "[DoLogin accepting_backend some_email some_password]"] h1 t1
  have a1: "isAuthenticated (session_after Map.empty [DoLogin accepting_backend some_email some_password])"
    by (simp add: non_null_def)
  from isAuthenticated_iff_token [of Map.empty "[DoLogin accepting_backend some_email some_password, DoLogout]"] h2 t2
  have a2: "\<not> isAuthenticated (session_after Map.empty [DoLogin accepting_backend some_email some_password, DoLogout])"
    by (simp add: non_null_def)
  from accepting_issues_bearer a1 a2 t1 show ?thesis by (simp add: non_null_def)
qed

text \<open>
  Without the condition on the backend the claim fails: after a login that the backend
  answers with the empty string as token, the token is non-null and \<open>isAuthenticated\<close>
  is false.
\<close>

theorem isAuthenticated_empty_token_counterexample:
  "non_null (token (session_after Map.empty [DoLogin empty_token_backend some_email some_password]))
   \<and> \<not> isAuthenticated (session_after Map.empty [DoLogin empty_token_backend some_email some_password])"
  by (simp add: session_after_login login_def login_try_def axios_request_def empty_token_backend_def
      store_token_def Cookies_set_def Let_def non_null_def isAuthenticated_def)

subsection \<open>A user only with a token\<close>

lemma invariant_hydrate:
  assumes "user_only_with_token s"
  shows "user_only_with_token (hydrate s)"
  using assms token_hydrate [of s]
  by (auto simp: user_only_with_token_def user_hydrate dest: is_bearer_truthy)

lemma invariant_logout: "user_only_with_token (logout s)"
  by (simp add: user_only_with_token_def token_logout non_null_def)

lemma invariant_login:
  assumes "issues non_null backend" and "user_only_with_token s"
  shows "user_only_with_token (snd (login backend email password s))"
  using assms token_login [of backend email password s]
  by (auto simp: user_only_with_token_def issues_def)

lemma invariant_register:
  assumes "issues non_null backend" and "user_only_with_token s"
  shows "user_only_with_token (snd (register backend name email password s))"
  using assms token_register [of backend name email password s]
  by (auto simp: user_only_with_token_def issues_def)

lemma invariant_step:
  assumes "action_issues non_null a" and "user_only_with_token s"
  shows "user_only_with_token (step s a)"
  using assms by (cases a) (simp_all add: invariant_login invariant_register invariant_logout)

lemma invariant_foldl:
  assumes "\<forall>a\<in>set acts. action_issues non_null a" and "user_only_with_token s"
  shows "user_only_with_token (foldl step s acts)"
  using assms by (induction acts arbitrary: s) (simp_all add: invariant_step)

lemma invariant_initial: "user_only_with_token (initial jar)"
  by (simp add: user_only_with_token_def initial_def non_null_def)

lemma accepting_issues_non_null: "issues non_null accepting_backend"
  by (auto simp: issues_def accepting_backend_def non_null_def)

lemma user_signed_in: "user signed_in = some_user"
  by (simp add: signed_in_def login_def login_try_def axios_request_def accepting_backend_def store_token_def
        Cookies_set_def Let_def)

text \<open>
  C8, as the code has it. The state before mount has no user. Cold-start hydration and
  logout preserve "user is non-null only if token is non-null" from every state; login and
  register preserve it against a backend whose 2xx replies carry a non-null
  \<open>access_token\<close>; so the invariant holds in every state reached from mount by logins,
  registrations and logouts against such backends.
\<close>

theorem user_only_with_token_preserved:
  "user_only_with_token (initial jar)
   \<and> (user_only_with_token s \<longrightarrow> user_only_with_token (hydrate s))
   \<and> user_only_with_token (logout s)
   \<and> (issues non_null backend \<longrightarrow> user_only_with_token s \<longrightarrow>
        user_only_with_token (snd (login backend email password s)))
   \<and> (issues non_null backend \<longrightarrow> user_only_with_token s \<longrightarrow>
        user_only_with_token (snd (register backend name email password s)))
   \<and> ((\<forall>a\<in>set acts. action_issues non_null a) \<longrightarrow>
        user_only_with_token (session_after jar acts))"
proof -
  have "(\<forall>a\<in>set acts. action_issues non_null a) \<longrightarrow> user_only_with_token (session_after jar acts)"
    unfolding session_after_def
    by (simp add: invariant_foldl invariant_hydrate invariant_initial)
  then show ?thesis
    by (simp add: invariant_initial invariant_hydrate invariant_logout invariant_login invariant_register)
qed

theorem user_only_with_token_preserved_witness:
  "user_only_with_token signed_in
   \<and> issues non_null accepting_backend
   \<and> non_null (user signed_in) \<and> non_null (token signed_in)
   \<and> user_only_with_token (hydrate signed_in)
   \<and> user_only_with_token (snd (login accepting_backend some_email some_password signed_in))
   \<and> user_only_with_token (snd (register accepting_backend (JStr ''Thandi'') some_email some_password signed_in))
   \<and> user_only_with_token (session_after Map.empty
         [DoLogin accepting_backend some_email some_password, DoLogout,
          DoRegister accepting_backend (JStr ''Thandi'') some_email some_password])"
proof -
  have nn: "non_null (user signed_in)" "non_null (token signed_in)"
    by (simp_all add: user_signed_in token_signed_in some_user_def non_null_def)
  then have inv: "user_only_with_token signed_in"
    by (simp add: user_only_with_token_def)
  have acts: "\<forall>a\<in>set [DoLogin accepting_backend some_email some_password, DoLogout,
                  DoRegister accepting_backend (JStr ''Thandi'') some_email some_password].
         action_issues non_null a"
    by (simp add: accepting_issues_non_null)
  from user_only_with_token_preserved
         [of Map.empty signed_in accepting_backend some_email some_password "JStr ''Thandi''"
             "[DoLogin accepting_backend some_email some_password, DoLogout,
               DoRegister accepting_backend (JStr ''Thandi'') some_email some_password]"]
       inv acts accepting_issues_non_null nn
  show ?thesis by simp
qed

text \<open>
  Without the condition on the backend login does not preserve the invariant: a 2xx
  reply with a user and a null \<open>access_token\<close> leaves a user in the session and no token.
\<close>

theorem user_without_token_counterexample:
  "non_null (user (session_after Map.empty [DoLogin null_token_backend some_email some_password]))
   \<and> token (session_after Map.empty [DoLogin null_token_backend some_email some_password]) = JNull
   \<and> \<not> user_only_with_token (session_after Map.empty [DoLogin null_token_backend some_email some_password])"
  by (simp add: session_after_login login_def login_try_def axios_request_def null_token_backend_def
      store_token_def Cookies_set_def Let_def non_null_def some_user_def user_only_with_token_def)

subsection \<open>useAuth\<close>

lemma useContext_skip:
  assumes "\<forall>c\<in>set inner. \<not> is_AuthProvider c"
  shows "useContext (inner @ outer) = useContext outer"
  using assms
proof (induction inner)
  case Nil
  then show ?case by simp
next
  case (Cons c inner)
  then show ?case by (cases c) simp_all
qed

text \<open>
  C10. A component that calls \<open>useAuth()\<close> with no AuthProvider above it gets the error
  \<open>useAuth must be used within an AuthProvider\<close> thrown, not an undefined context; with
  an AuthProvider above it, \<open>useAuth()\<close> returns the session value of the nearest one.
\<close>

theorem useAuth_throws_outside_provider:
  "((\<forall>c\<in>set outer. \<not> is_AuthProvider c) \<longrightarrow>
      useAuth outer = Inl (JsError ''useAuth must be used within an AuthProvider''))
   \<and> ((\<forall>c\<in>set inner. \<not> is_AuthProvider c) \<longrightarrow>
      useAuth (inner @ AuthProvider s # outer) = Inr (provider_value s))"
proof (intro conjI impI)
  assume "\<forall>c\<in>set outer. \<not> is_AuthProvider c"
  from useContext_skip [OF this, of "[]"]
  show "useAuth outer = Inl (JsError ''useAuth must be used within an AuthProvider'')"
    by (simp add: useAuth_def)
next
  assume "\<forall>c\<in>set inner. \<not> is_AuthProvider c"
  from useContext_skip [OF this, of "AuthProvider s # outer"]
  show "useAuth (inner @ AuthProvider s # outer) = Inr (provider_value s)"
    by (simp add: useAuth_def)
qed

theorem useAuth_throws_outside_provider_witness:
  "useAuth [OtherComponent ''Navbar'', OtherComponent ''App'']
       = Inl (JsError ''useAuth must be used within an AuthProvider'')
   \<and> useAuth ([OtherComponent ''Dashboard'', OtherComponent ''ProtectedRoute'']
               @ AuthProvider signed_in # [OtherComponent ''App''])
       = Inr \<lparr>value_user = some_user, value_token = JStr ''abc'', value_loading = False,
              value_isAuthenticated = True\<rparr>"
proof -
  have h1: "\<forall>c\<in>set [OtherComponent ''Navbar'', OtherComponent ''App'']. \<not> is_AuthProvider c"
    by simp
  have h2: "\<forall>c\<in>set [OtherComponent ''Dashboard'', OtherComponent ''ProtectedRoute'']. \<not> is_AuthProvider c"
    by simp
  have l: "loading signed_in = False"
    by (simp add: signed_in_def login_def login_try_def axios_request_def accepting_backend_def store_token_def
        Cookies_set_def Let_def fresh_session_def hydrate_def initial_def Cookies_get_def)
  have v: "provider_value signed_in
        = \<lparr>value_user = some_user, value_token = JStr ''abc'', value_loading = False,
              value_isAuthenticated = True\<rparr>"
    by (simp add: provider_value_def user_signed_in token_signed_in l isAuthenticated_def)
  from useAuth_throws_outside_provider
         [of "[OtherComponent ''Navbar'', OtherComponent ''App'']"
             "[OtherComponent ''Dashboard'', OtherComponent ''ProtectedRoute'']" signed_in]
       useAuth_throws_outside_provider
         [of "[OtherComponent ''App'']"
             "[OtherComponent ''Dashboard'', OtherComponent ''ProtectedRoute'']" signed_in]
       h1 h2 v
  show ?thesis by simp
qed

section \<open>Properties of the feature views\<close>

subsection \<open>A reply with HTTP 401\<close>

lemma observed_append: "observed (xs @ ys) = observed xs @ observed ys"
  by (induction xs rule: observed.induct) simp_all

lemma observed_in_flight: "observed (in_flight evs prev timer) = []"
  by (induction evs prev timer rule: in_flight.induct) simp_all

lemma unauthorizedE:
  assumes "unauthorized (backend req)"
  obtains r where "backend req = Rejected (Some r)" and "status r = 401"
  using assms by (auto simp: unauthorized_def split: reply.splits option.splits)

lemma Dashboard_fetchProposals_401:
  assumes "truthy (token s)" and "unauthorized (backend (get_request ''/user-proposals'' s))"
  shows "observed (Dashboard_fetchProposals backend s) = session_expired"
  using assms
  by (auto simp: axios_request_def unauthorized_def split: reply.splits option.splits simp: Dashboard_fetchProposals_def Dashboard_fetchProposals_catch_def session_expired_def)

lemma Dashboard_downloadProposalPDF_401:
  assumes "truthy (token s)"
    and "unauthorized (backend (get_request (''/download-proposal/'' @ to_string proposalId) s))"
  shows "observed (Dashboard_downloadProposalPDF save backend s proposalId proposalTitle) = session_expired"
  using assms
  by (auto simp: axios_request_def unauthorized_def split: reply.splits option.splits simp: Dashboard_downloadProposalPDF_def Dashboard_downloadProposalPDF_catch_def session_expired_def)

lemma Funding_fetchProposalData_silent: "observed (Funding_fetchProposalData backend s pid) = []"
  by (simp add: Funding_fetchProposalData_def split: sum.splits)

lemma Funding_fetchRecommendations_401:
  assumes "truthy (token s)"
    and "unauthorized (backend (get_request (''/funding-recommendations/'' @ to_string route_id) s))"
  shows "observed (Funding_fetchRecommendations backend s route_id pid) = session_expired"
  using assms
  by (auto simp: axios_request_def unauthorized_def split: reply.splits option.splits simp: Funding_fetchRecommendations_def Funding_fetchRecommendations_catch_def session_expired_def)

lemma Funding_searchFundersRealtime_401:
  assumes "truthy (token s)"
    and "unauthorized (backend (post_request ''/search-funders'' (JObj [(''proposal_id'', pid)]) s))"
  shows "observed (Funding_searchFundersRealtime backend s pid) = session_expired"
  using assms
  by (auto simp: axios_request_def unauthorized_def split: reply.splits option.splits simp: Funding_searchFundersRealtime_def Funding_searchFundersRealtime_catch_def session_expired_def)

lemma Analysis_fetchBusinessPlanContent_silent:
  "observed (Analysis_fetchBusinessPlanContent backend s proposalId) = []"
  by (simp add: Analysis_fetchBusinessPlanContent_def split: sum.splits)

lemma Analysis_fetchProposalData_401:
  assumes "truthy (token s)" and "unauthorized (backend (get_request ''/user-proposals'' s))"
  shows "observed (Analysis_fetchProposalData backend s pid) = session_expired"
  using assms
  by (auto simp: axios_request_def unauthorized_def split: reply.splits option.splits simp: Analysis_fetchProposalData_def Analysis_fetchProposalData_catch_def session_expired_def)

lemma Analysis_analyzeProposal_401:
  assumes "truthy (token s)"
    and "unauthorized (backend (post_request (''/analyze-proposal/'' @ to_string route_id) (JObj []) s))"
  shows "observed (Analysis_analyzeProposal backend s route_id pid) = session_expired"
  using assms
  by (auto simp: axios_request_def unauthorized_def split: reply.splits option.splits simp: Analysis_analyzeProposal_def Analysis_analyzeProposal_catch_def session_expired_def)

lemma Analysis_downloadProposalPDF_401:
  assumes "truthy (token s)"
    and "unauthorized (backend (get_request (''/download-proposal/'' @ to_string route_id) s))"
  shows "observed (Analysis_downloadProposalPDF save backend s route_id proposal) = session_expired"
  using assms
  by (auto simp: axios_request_def unauthorized_def split: reply.splits option.splits simp: Analysis_downloadProposalPDF_def Analysis_downloadProposalPDF_catch_def session_expired_def)

lemma handleSubmit_401:
  assumes "truthy (token s)"
    and "unauthorized (backend (post_request ''/generate-business-plan'' formData s))"
  shows "observed (handleSubmit backend s formData) = session_expired"
  using assms
  by (auto simp: axios_request_def unauthorized_def split: reply.splits option.splits simp: handleSubmit_def handleSubmit_catch_def session_expired_def)

lemma onDrop_401:
  assumes "truthy (token s)" and "truthy file"
    and "unauthorized (backend (post_request ''/upload-proposal'' (JObj [(''file'', file)]) s))"
  shows "observed (onDrop backend s (file # others) events) =
           (if reply_error (backend (post_request ''/upload-proposal'' (JObj [(''file'', file)]) s))
                 = JStr ''invalid_token''
            then session_expired
            else [ToastError (or_else (reply_error (backend
                     (post_request ''/upload-proposal'' (JObj [(''file'', file)]) s)))
                   (JStr ''Upload failed''))])"
proof -
  from assms(3) obtain r where
    r: "backend (post_request ''/upload-proposal'' (JObj [(''file'', file)]) s) = Rejected (Some r)"
    and st: "status r = 401"
    by (rule unauthorizedE)
  from r have ax: "axios_request backend (post_request ''/upload-proposal'' (JObj [(''file'', file)]) s)
                   = Inl (AxiosError (Some r))"
    by (simp add: axios_request_def)
  show ?thesis
    using assms(1,2) st
    by (simp add: onDrop_def ax r reply_error_def onDrop_catch_def observed_append observed_in_flight
        session_expired_def)
qed

lemma unauthorized_expired_backend: "unauthorized (expired_backend req)"
  by (simp add: unauthorized_def expired_backend_def)

lemma unauthorized_unauthorized_backend: "unauthorized (unauthorized_backend req)"
  by (simp add: unauthorized_def unauthorized_backend_def)

lemma truthy_token_signed_in: "truthy (token signed_in)"
  by (simp add: token_signed_in)

text \<open>
  C1, as the code has it. In a session with a token, a reply with HTTP 401 to the request
  of \<open>fetchProposals\<close> and \<open>downloadProposalPDF\<close> of the Dashboard, of \<open>fetchProposalData\<close>,
  \<open>analyzeProposal\<close> and \<open>downloadProposalPDF\<close> of the Analysis view, of
  \<open>fetchRecommendations\<close> and \<open>searchFundersRealtime\<close> of the Funding view and of
  \<open>handleSubmit\<close> of the Generator makes the handler perform exactly one error
  notification, one \<open>logout()\<close> and one navigation to \<open>/login\<close>, in that order. The Upload
  view does so only when the body of the 401 reply has the error \<open>invalid_token\<close>, and
  otherwise gives one error notification, with no logout and no navigation. The two
  background fetches, \<open>fetchProposalData\<close> of the Funding view and
  \<open>fetchBusinessPlanContent\<close> of the Analysis view, notify nothing, log nobody out and
  navigate nowhere, whatever the reply.
\<close>

theorem unauthorized_reply_effects:
  assumes "truthy (token s)"
  shows
   "(unauthorized (backend (get_request ''/user-proposals'' s)) \<longrightarrow>
       observed (Dashboard_fetchProposals backend s) = session_expired
       \<and> observed (Analysis_fetchProposalData backend s pid) = session_expired)
    \<and> (unauthorized (backend (get_request (''/download-proposal/'' @ to_string proposalId) s)) \<longrightarrow>
       observed (Dashboard_downloadProposalPDF save backend s proposalId proposalTitle) = session_expired
       \<and> observed (Analysis_downloadProposalPDF save backend s proposalId proposal) = session_expired)
    \<and> (unauthorized (backend (get_request (''/funding-recommendations/'' @ to_string route_id) s)) \<longrightarrow>
       observed (Funding_fetchRecommendations backend s route_id pid) = session_expired)
    \<and> (unauthorized (backend (post_request ''/search-funders'' (JObj [(''proposal_id'', pid)]) s)) \<longrightarrow>
       observed (Funding_searchFundersRealtime backend s pid) = session_expired)
    \<and> (unauthorized (backend (post_request (''/analyze-proposal/'' @ to_string route_id) (JObj []) s)) \<longrightarrow>
       observed (Analysis_analyzeProposal backend s route_id pid) = session_expired)
    \<and> (unauthorized (backend (post_request ''/generate-business-plan'' formData s)) \<longrightarrow>
       observed (handleSubmit backend s formData) = session_expired)
    \<and> (truthy file \<longrightarrow>
        unauthorized (backend (post_request ''/upload-proposal'' (JObj [(''file'', file)]) s)) \<longrightarrow>
       observed (onDrop backend s (file # others) events) =
         (if reply_error (backend (post_request ''/upload-proposal'' (JObj [(''file'', file)]) s))
               = JStr ''invalid_token''
          then session_expired
          else [ToastError (or_else (reply_error (backend
                   (post_request ''/upload-proposal'' (JObj [(''file'', file)]) s)))
                 (JStr ''Upload failed''))]))
    \<and> observed (Funding_fetchProposalData backend s pid) = []
    \<and> observed (Analysis_fetchBusinessPlanContent backend s pid) = []"
  using assms
  by (simp add: Dashboard_fetchProposals_401 Analysis_fetchProposalData_401
      Dashboard_downloadProposalPDF_401 Analysis_downloadProposalPDF_401
      Funding_fetchRecommendations_401 Funding_searchFundersRealtime_401
      Analysis_analyzeProposal_401 handleSubmit_401 onDrop_401
      Funding_fetchProposalData_silent Analysis_fetchBusinessPlanContent_silent)

theorem unauthorized_reply_effects_witness:
  "truthy (token signed_in) \<and> truthy some_file
   \<and> unauthorized (expired_backend (get_request ''/user-proposals'' signed_in))
   \<and> observed (Dashboard_fetchProposals expired_backend signed_in) = session_expired
   \<and> observed (Analysis_fetchProposalData expired_backend signed_in (JNum ''7'')) = session_expired
   \<and> observed (Dashboard_downloadProposalPDF no_save expired_backend signed_in (JNum ''7'') (JStr ''Bakery''))
        = session_expired
   \<and> observed (Analysis_downloadProposalPDF no_save expired_backend signed_in (JNum ''7'') analyzed_proposal)
        = session_expired
   \<and> observed (Funding_fetchRecommendations expired_backend signed_in (JStr ''7'') (JNum ''7'')) = session_expired
   \<and> observed (Funding_searchFundersRealtime expired_backend signed_in (JNum ''7'')) = session_expired
   \<and> observed (Analysis_analyzeProposal expired_backend signed_in (JStr ''7'') (JNum ''7'')) = session_expired
   \<and> observed (handleSubmit expired_backend signed_in (JObj [])) = session_expired
   \<and> observed (onDrop expired_backend signed_in [some_file] [Tick, Progress 1 2]) = session_expired
   \<and> observed (onDrop unauthorized_backend signed_in [some_file] [Tick, Progress 1 2])
        = [ToastError (JStr ''token_expired'')]
   \<and> observed (Funding_fetchProposalData expired_backend signed_in (JNum ''7'')) = []
   \<and> observed (Analysis_fetchBusinessPlanContent expired_backend signed_in (JNum ''7'')) = []"
proof -
  have f: "truthy some_file" by (simp add: some_file_def)
  have e1: "reply_error (expired_backend req) = JStr ''invalid_token''" for req
    by (simp add: reply_error_def expired_backend_def error_message_def)
  have e2: "reply_error (unauthorized_backend req) = JStr ''token_expired''" for req
    by (simp add: reply_error_def unauthorized_backend_def error_message_def)
  from unauthorized_reply_effects
         [OF truthy_token_signed_in, of expired_backend "JNum ''7''" "JNum ''7''" no_save "JStr ''Bakery''"
            analyzed_proposal "JStr ''7''" "JObj []" some_file "[]" "[Tick, Progress 1 2]"]
  have a: "observed (Dashboard_fetchProposals expired_backend signed_in) = session_expired
   \<and> observed (Analysis_fetchProposalData expired_backend signed_in (JNum ''7'')) = session_expired
   \<and> observed (Dashboard_downloadProposalPDF no_save expired_backend signed_in (JNum ''7'') (JStr ''Bakery''))
        = session_expired
   \<and> observed (Analysis_downloadProposalPDF no_save expired_backend signed_in (JNum ''7'') analyzed_proposal)
        = session_expired
   \<and> observed (Funding_fetchRecommendations expired_backend signed_in (JStr ''7'') (JNum ''7'')) = session_expired
   \<and> observed (Funding_searchFundersRealtime expired_backend signed_in (JNum ''7'')) = session_expired
   \<and> observed (Analysis_analyzeProposal expired_backend signed_in (JStr ''7'') (JNum ''7'')) = session_expired
   \<and> observed (handleSubmit expired_backend signed_in (JObj [])) = session_expired
   \<and> observed (onDrop expired_backend signed_in [some_file] [Tick, Progress 1 2]) = session_expired
   \<and> observed (Funding_fetchProposalData expired_backend signed_in (JNum ''7'')) = []
   \<and> observed (Analysis_fetchBusinessPlanContent expired_backend signed_in (JNum ''7'')) = []"
    by (simp add: unauthorized_expired_backend f e1)
  from unauthorized_reply_effects
         [OF truthy_token_signed_in, of unauthorized_backend "JNum ''7''" "JNum ''7''" no_save "JStr ''Bakery''"
            analyzed_proposal "JStr ''7''" "JObj []" some_file "[]" "[Tick, Progress 1 2]"]
  have b: "observed (onDrop unauthorized_backend signed_in [some_file] [Tick, Progress 1 2])
        = [ToastError (JStr ''token_expired'')]"
    by (simp add: unauthorized_unauthorized_backend f e2 or_else_def)
  from a b f truthy_token_signed_in unauthorized_expired_backend show ?thesis by simp
qed

text \<open>
  The claim as it is written fails in the Upload view: on a 401 reply whose error is not
  \<open>invalid_token\<close> the view shows the error of the reply and neither logs out nor
  navigates; and \<open>fetchBusinessPlanContent\<close> does nothing a user observes on a 401 reply.
\<close>

theorem upload_unauthorized_counterexample:
  "truthy (token signed_in) \<and> truthy some_file
   \<and> unauthorized (unauthorized_backend (post_request ''/upload-proposal'' (JObj [(''file'', some_file)]) signed_in))
   \<and> observed (onDrop unauthorized_backend signed_in [some_file] [])
        = [ToastError (JStr ''token_expired'')]
   \<and> observed (onDrop unauthorized_backend signed_in [some_file] []) \<noteq> session_expired
   \<and> observed (Analysis_fetchBusinessPlanContent unauthorized_backend signed_in (JNum ''7'')) = []"
  by (simp add: token_signed_in some_file_def unauthorized_def unauthorized_backend_def onDrop_def
      axios_request_def onDrop_catch_def error_message_def or_else_def session_expired_def
      Analysis_fetchBusinessPlanContent_def)

subsection \<open>The progress of an upload\<close>

lemma progress_values_append: "progress_values (xs @ ys) = progress_values xs @ progress_values ys"
  by (induction xs rule: progress_values.induct) simp_all

lemma onDrop_success_final_progress:
  assumes "truthy (token s)" and "truthy file"
    and "backend (post_request ''/upload-proposal'' (JObj [(''file'', file)]) s) = Resolved r"
  shows "last (progress_values (onDrop backend s (file # others) events)) = Num 100"
  using assms
  by (simp add: onDrop_def axios_request_def progress_values_append split: sum.splits)

text \<open>
  C2. The claim: during an upload that completes successfully the values assigned to the
  progress percentage never decrease, none exceeds 90 before the request completes, and
  the last is 100. The code: the transport callback writes its percentage into the same
  cell as the timer, uncapped. When the last byte is sent before the reply arrives the
  cell gets 100 and the next tick of the timer puts it back to 90; when the transport
  reports less than the timer has simulated the cell goes back to the lower value. Only
  the final value 100 holds (\<open>onDrop_success_final_progress\<close>).
\<close>

theorem upload_progress_goes_back:
  "progress_values (onDrop storing_backend signed_in [some_file] [Progress 100 100, Tick])
     = [Num 0, Num 100, Num 90, Num 100]
   \<and> progress_values (onDrop storing_backend signed_in [some_file] [Tick, Tick, Tick, Progress 1 20])
     = [Num 0, Num 10, Num 20, Num 30, Num 5, Num 100]"
  by (simp add: onDrop_def token_signed_in some_file_def axios_request_def storing_backend_def percent_def)

subsection \<open>The Funding action of the Dashboard\<close>







end
